theory Spec2Isabelle
  imports Complex_Main "HOL-Library.Word"
begin

section \<open>Arrays and Python errors\<close>

text \<open>
  A two-dimensional ndarray is a list of rows. The arrays of the program are rectangular;
  \<open>is_grid h w g\<close> says that \<open>g\<close> has \<open>h\<close> rows of \<open>w\<close> cells. An array with no row is
  \<open>[]\<close> whatever its width.
\<close>

type_synonym 'a grid = "'a list list"

datatype py_error = IndexError | OverflowError

definition is_grid :: "nat \<Rightarrow> nat \<Rightarrow> 'a grid \<Rightarrow> bool" where
  "is_grid h w g = (length g = h \<and> list_all (\<lambda>row. length row = w) g)"

text \<open>\<open>np.zeros((h, w))\<close>, \<open>np.ones((h, w)) * v\<close>: the constant array.\<close>

definition np_full :: "nat \<times> nat \<Rightarrow> 'a \<Rightarrow> 'a grid" where
  "np_full shape v = replicate (fst shape) (replicate (snd shape) v)"

text \<open>\<open>a.shape[0]\<close> and \<open>a.shape[1]\<close> of a two-dimensional array.\<close>

definition shape0 :: "'a grid \<Rightarrow> nat" where
  "shape0 g = length g"

definition shape1 :: "'a grid \<Rightarrow> nat" where
  "shape1 g = (case g of [] \<Rightarrow> 0 | row # _ \<Rightarrow> length row)"

text \<open>
  The bounds of a Python slice \<open>a[i:j]\<close> on an axis of length \<open>n\<close>: a negative bound
  counts from the end, and every bound is clipped to \<open>0..n\<close>.
\<close>

definition slice_index :: "int \<Rightarrow> nat \<Rightarrow> nat" where
  "slice_index i n = (if i < 0 then nat (max (i + int n) 0) else min (nat i) n)"

text \<open>\<open>m[r0:r1, c0:c1] = v\<close>\<close>

definition slice_assign :: "'a grid \<Rightarrow> int \<Rightarrow> int \<Rightarrow> int \<Rightarrow> int \<Rightarrow> 'a \<Rightarrow> 'a grid" where
  "slice_assign m r0 r1 c0 c1 v =
     map (\<lambda>(r, row).
            map (\<lambda>(c, x).
                   if slice_index r0 (length m) \<le> r \<and> r < slice_index r1 (length m) \<and>
                      slice_index c0 (length row) \<le> c \<and> c < slice_index c1 (length row)
                   then v else x)
                (enumerate 0 row))
         (enumerate 0 m)"

text \<open>\<open>a[b == 1] = v\<close> for a mask \<open>b\<close> of the shape of \<open>a\<close>.\<close>

definition mask_assign :: "'a grid \<Rightarrow> 8 word grid \<Rightarrow> 'a \<Rightarrow> 'a grid" where
  "mask_assign a b v =
     map (\<lambda>(r, row). map (\<lambda>(c, x). if b ! r ! c = 1 then v else x) (enumerate 0 row))
         (enumerate 0 a)"

text \<open>
  \<open>np.array(points).astype(np.int64)\<close> on one coordinate of an annotation. Within the
  int64 range the fraction is dropped (rounding towards 0). A whole number from \<open>2^63\<close> to
  \<open>2^64 - 1\<close> is held as uint64 by \<open>np.array\<close> and wraps around in the cast. Any number
  beyond is a Python integer that fits no NumPy integer type, and the cast raises
  OverflowError.
\<close>

definition astype_int64 :: "real \<Rightarrow> py_error + int" where
  "astype_int64 x =
     (let t = (if 0 \<le> x then \<lfloor>x\<rfloor> else \<lceil>x\<rceil>) in
      if - (2 ^ 63) \<le> t \<and> t < 2 ^ 63 then Inr t
      else if 2 ^ 63 \<le> t \<and> t < 2 ^ 64 then Inr (t - 2 ^ 64)
      else Inl OverflowError)"

text \<open>The cast of the whole vertex list: it raises as soon as one coordinate does.\<close>

fun astype_int64_points :: "(real \<times> real) list \<Rightarrow> py_error + (int \<times> int) list" where
  "astype_int64_points [] = Inr []"
| "astype_int64_points ((x, y) # rest) =
     (case astype_int64 x of
        Inl e \<Rightarrow> Inl e
      | Inr i \<Rightarrow>
          (case astype_int64 y of
             Inl e \<Rightarrow> Inl e
           | Inr j \<Rightarrow>
               (case astype_int64_points rest of
                  Inl e \<Rightarrow> Inl e
                | Inr ps \<Rightarrow> Inr ((i, j) # ps))))"

text \<open>
  \<open>.astype("int16")\<close> on the whole numbers that \<open>np.unique\<close> returns: the low 16 bits, read
  as two's complement.
\<close>

definition astype_int16 :: "int \<Rightarrow> int" where
  "astype_int16 v = sint (word_of_int v :: 16 word)"

text \<open>\<open>np.unique(a)\<close>: the distinct values of the flattened array, ascending.\<close>

definition np_unique :: "int grid \<Rightarrow> int list" where
  "np_unique a = sort (remdups (concat a))"

section \<open>helper.py: the annotation decoder\<close>

text \<open>
  One entry of \<open>data['shapes']\<close>. \<open>scores_cls\<close> is \<open>shape['scores']['cls']\<close>, \<open>None\<close> when
  the entry has no \<open>'scores'\<close> key. Every vertex of \<open>points\<close> is a pair \<open>(x, y)\<close>.
\<close>

record shape_ann =
  label :: string
  points :: "(real \<times> real) list"
  shape_type :: string
  scores_cls :: "real option"

record annotation_doc =
  shapes :: "shape_ann list"

record results =
  class_names :: "string list"
  scores :: "real option list"
  masks :: "8 word grid list"

text \<open>
  \<open>skimage.draw.polygon(rows, cols, shape)\<close> is a library function, not part of this
  program: the decoder takes it as a parameter. It returns the filled pixels as
  (row, column) pairs.
\<close>

type_synonym rasteriser = "int list \<Rightarrow> int list \<Rightarrow> nat \<times> nat \<Rightarrow> (int \<times> int) list"

text \<open>
  \<open>poly2mask\<close>: \<open>mask[fill_row_coords, fill_col_coords] = True\<close> on a mask of zeros. An
  index in \<open>-n..n-1\<close> is accepted on an axis of length \<open>n\<close> (a negative one counts from the
  end), any other raises IndexError before a cell is written.
\<close>

definition index_ok :: "int \<Rightarrow> nat \<Rightarrow> bool" where
  "index_ok i n = (- int n \<le> i \<and> i < int n)"

definition norm_index :: "int \<Rightarrow> nat \<Rightarrow> nat" where
  "norm_index i n = nat (if i < 0 then i + int n else i)"

definition poly2mask :: "rasteriser \<Rightarrow> int list \<Rightarrow> int list \<Rightarrow> nat \<times> nat \<Rightarrow> py_error + bool grid" where
  "poly2mask polygon vertex_row_coords vertex_col_coords shape =
     (let fill = polygon vertex_row_coords vertex_col_coords shape in
      if list_all (\<lambda>(r, c). index_ok r (fst shape) \<and> index_ok c (snd shape)) fill
      then Inr (map (\<lambda>r. map (\<lambda>c. (r, c) \<in> set (map (\<lambda>(i, j). (norm_index i (fst shape), norm_index j (snd shape))) fill))
                            [0..<snd shape])
                    [0..<fst shape])
      else Inl IndexError)"

text \<open>The body of the loop of \<open>json2results\<close> that builds the mask of one annotation.\<close>

definition decode_mask :: "rasteriser \<Rightarrow> shape_ann \<Rightarrow> nat \<times> nat \<Rightarrow> py_error + 8 word grid" where
  "decode_mask polygon shape shape' =
     (case astype_int64_points (points shape) of
        Inl e \<Rightarrow> Inl e
      | Inr mask_points \<Rightarrow>
          if shape_type shape = ''rectangle'' then
            (if length mask_points < 2 then Inl IndexError
             else Inr (slice_assign (np_full shape' 0)
                         (snd (mask_points ! 0)) (snd (mask_points ! 1))
                         (fst (mask_points ! 0)) (fst (mask_points ! 1)) 1))
          else
            (if mask_points = [] then Inl IndexError
             else case poly2mask polygon (map snd mask_points) (map fst mask_points) shape' of
                    Inl e \<Rightarrow> Inl e
                  | Inr bmask \<Rightarrow> Inr (map (map (\<lambda>b. if b then 1 else 0)) bmask)))"

fun json2results_loop :: "rasteriser \<Rightarrow> shape_ann list \<Rightarrow> nat \<times> nat \<Rightarrow> results \<Rightarrow> py_error + results" where
  "json2results_loop polygon [] shape' res = Inr res"
| "json2results_loop polygon (shape # rest) shape' res =
     (case decode_mask polygon shape shape' of
        Inl e \<Rightarrow> Inl e
      | Inr m \<Rightarrow>
          json2results_loop polygon rest shape'
            (res\<lparr>class_names := class_names res @ [label shape],
                 scores := scores res @ [scores_cls shape],
                 masks := masks res @ [m]\<rparr>))"

definition json2results :: "rasteriser \<Rightarrow> annotation_doc \<Rightarrow> nat \<times> nat \<Rightarrow> py_error + results" where
  "json2results polygon data shape' =
     json2results_loop polygon (shapes data) shape' \<lparr>class_names = [], scores = [], masks = []\<rparr>"

section \<open>helper.py: the instance ranker\<close>

text \<open>
  The loop \<open>for idx in range(len(results["class_names"]))\<close>; \<open>results["masks"][idx]\<close>
  raises IndexError past the last mask.
\<close>

fun rank_loop :: "8 word grid list \<Rightarrow> nat list \<Rightarrow> int grid \<Rightarrow> py_error + int grid" where
  "rank_loop ms [] ranked_food_mask = Inr ranked_food_mask"
| "rank_loop ms (idx # rest) ranked_food_mask =
     (if idx < length ms
      then rank_loop ms rest (mask_assign ranked_food_mask (ms ! idx) (int idx))
      else Inl IndexError)"

definition non_food_value :: int where
  "non_food_value = - 1"

definition get_food_mask :: "results \<Rightarrow> py_error + int grid \<times> int list" where
  "get_food_mask res =
     (case masks res of
        [] \<Rightarrow> Inl IndexError
      | m0 # _ \<Rightarrow>
          (let height = shape0 m0;
               width = shape1 m0;
               sorted_idx = [0..<length (class_names res)]
           in case rank_loop (masks res) sorted_idx (np_full (height, width) non_food_value) of
                Inl e \<Rightarrow> Inl e
              | Inr ranked_food_mask \<Rightarrow>
                  (let unique_indices = map astype_int16 (np_unique ranked_food_mask);
                       food_indices = filter (\<lambda>u. u \<noteq> non_food_value) unique_indices
                   in Inr (ranked_food_mask, food_indices))))"

section \<open>helper.py: the depth unprojector\<close>

text \<open>
  A float64 value. The finite values are taken as real numbers: rounding and overflow are
  not modelled. The three other values are what IEEE arithmetic returns where a real result
  does not exist; NumPy returns them from array arithmetic without raising. A zero divisor
  is the positive zero.
\<close>

datatype npfloat = Fin real | PInf | NInf | NaN

fun np_neg :: "npfloat \<Rightarrow> npfloat" where
  "np_neg (Fin a) = Fin (- a)"
| "np_neg PInf = NInf"
| "np_neg NInf = PInf"
| "np_neg NaN = NaN"

fun np_add :: "npfloat \<Rightarrow> npfloat \<Rightarrow> npfloat" where
  "np_add (Fin a) (Fin b) = Fin (a + b)"
| "np_add NaN _ = NaN"
| "np_add _ NaN = NaN"
| "np_add PInf NInf = NaN"
| "np_add NInf PInf = NaN"
| "np_add PInf _ = PInf"
| "np_add _ PInf = PInf"
| "np_add NInf _ = NInf"
| "np_add _ NInf = NInf"

definition np_sub :: "npfloat \<Rightarrow> npfloat \<Rightarrow> npfloat" where
  "np_sub a b = np_add a (np_neg b)"

fun np_mul :: "npfloat \<Rightarrow> npfloat \<Rightarrow> npfloat" where
  "np_mul (Fin a) (Fin b) = Fin (a * b)"
| "np_mul NaN _ = NaN"
| "np_mul _ NaN = NaN"
| "np_mul (Fin a) PInf = (if a = 0 then NaN else if 0 < a then PInf else NInf)"
| "np_mul (Fin a) NInf = (if a = 0 then NaN else if 0 < a then NInf else PInf)"
| "np_mul PInf (Fin b) = (if b = 0 then NaN else if 0 < b then PInf else NInf)"
| "np_mul NInf (Fin b) = (if b = 0 then NaN else if 0 < b then NInf else PInf)"
| "np_mul PInf PInf = PInf"
| "np_mul PInf NInf = NInf"
| "np_mul NInf PInf = NInf"
| "np_mul NInf NInf = PInf"

fun np_div :: "npfloat \<Rightarrow> npfloat \<Rightarrow> npfloat" where
  "np_div (Fin a) (Fin b) =
     (if b = 0 then (if a = 0 then NaN else if 0 < a then PInf else NInf) else Fin (a / b))"
| "np_div NaN _ = NaN"
| "np_div _ NaN = NaN"
| "np_div (Fin a) _ = Fin 0"
| "np_div PInf (Fin b) = (if 0 \<le> b then PInf else NInf)"
| "np_div NInf (Fin b) = (if 0 \<le> b then NInf else PInf)"
| "np_div _ _ = NaN"

fun is_fin :: "npfloat \<Rightarrow> bool" where
  "is_fin (Fin a) = True"
| "is_fin _ = False"

text \<open>Elementwise operations: on one array, and on two arrays of one shape.\<close>

definition grid_map :: "('a \<Rightarrow> 'b) \<Rightarrow> 'a grid \<Rightarrow> 'b grid" where
  "grid_map f g = map (map f) g"

definition grid_map2 :: "('a \<Rightarrow> 'b \<Rightarrow> 'c) \<Rightarrow> 'a grid \<Rightarrow> 'b grid \<Rightarrow> 'c grid" where
  "grid_map2 f a b = map2 (map2 f) a b"

text \<open>\<open>s + a\<close>, \<open>s * a\<close> for a scalar \<open>s\<close>; \<open>a + b\<close>, \<open>a * b\<close> for two arrays.\<close>

definition sadd :: "real \<Rightarrow> npfloat grid \<Rightarrow> npfloat grid" where
  "sadd s a = grid_map (np_add (Fin s)) a"

definition smul :: "real \<Rightarrow> npfloat grid \<Rightarrow> npfloat grid" where
  "smul s a = grid_map (np_mul (Fin s)) a"

definition gadd :: "npfloat grid \<Rightarrow> npfloat grid \<Rightarrow> npfloat grid" where
  "gadd a b = grid_map2 np_add a b"

definition gmul :: "npfloat grid \<Rightarrow> npfloat grid \<Rightarrow> npfloat grid" where
  "gmul a b = grid_map2 np_mul a b"

text \<open>
  \<open>np.meshgrid(np.arange(width), np.arange(height))\<close>: the first array holds the column
  number of every cell, the second its row number.
\<close>

definition meshgrid :: "nat \<Rightarrow> nat \<Rightarrow> int grid \<times> int grid" where
  "meshgrid width height =
     (replicate height (map int [0..<width]), map (\<lambda>r. replicate width (int r)) [0..<height])"

text \<open>
  \<open>np.transpose(np.array(planes), (1, 2, 0))\<close> for planes of shape (height, width): cell
  (r, c) of the result lists the values of the planes at (r, c).
\<close>

definition transpose_120 :: "nat \<Rightarrow> nat \<Rightarrow> 'a grid list \<Rightarrow> 'a list grid" where
  "transpose_120 height width planes =
     map (\<lambda>r. map (\<lambda>c. map (\<lambda>a. a ! r ! c) planes) [0..<width]) [0..<height]"

text \<open>
  \<open>depth_intrinsics_dict\<close>. The depth image and the intrinsics hold finite numbers.
  \<open>coeffs[k]\<close> raises IndexError on a list of fewer than \<open>k + 1\<close> numbers. The keys
  \<open>height\<close> and \<open>width\<close> of the dictionary are not read by \<open>pix2point\<close>, which takes the
  shape from the depth image, and are left out.
\<close>

record intrinsics =
  coeffs :: "real list"
  fx :: real
  fy :: real
  ppx :: real
  ppy :: real

definition pix2point :: "real grid \<Rightarrow> intrinsics \<Rightarrow> py_error + npfloat list grid" where
  "pix2point depth d =
     (let height = shape0 depth;
          width = shape1 depth;
          (x_s_idx, y_s_idx) = meshgrid width height;
          x = grid_map (\<lambda>v. np_div v (Fin (fx d)))
                (grid_map (\<lambda>i. np_sub (Fin (of_int i)) (Fin (ppx d))) x_s_idx);
          y = grid_map (\<lambda>v. np_div v (Fin (fy d)))
                (grid_map (\<lambda>i. np_sub (Fin (of_int i)) (Fin (ppy d))) y_s_idx);
          r2 = gadd (gmul x x) (gmul y y)
      in if length (coeffs d) < 5 then Inl IndexError
         else
           (let f = gadd (gadd (sadd 1 (smul (coeffs d ! 0) r2))
                               (gmul (smul (coeffs d ! 1) r2) r2))
                         (gmul (gmul (smul (coeffs d ! 4) r2) r2) r2);
                ux = gadd (gadd (gmul x f) (gmul (smul (2 * coeffs d ! 2) x) y))
                          (smul (coeffs d ! 3) (gadd r2 (gmul (smul 2 x) x)));
                uy = gadd (gadd (gmul y f) (gmul (smul (2 * coeffs d ! 3) x) y))
                          (smul (coeffs d ! 2) (gadd r2 (gmul (smul 2 y) y)));
                depth_f = grid_map Fin depth;
                point_array_x = gmul depth_f ux;
                point_array_y = gmul depth_f uy
            in Inr (transpose_120 height width [point_array_x, point_array_y, depth_f])))"

text \<open>
  The cell (row, col) of the arrays of \<open>pix2point\<close>, for the depth \<open>z\<close> of that cell: the
  same operations in the same order, on one value instead of an array.
\<close>

definition pix2point_at :: "intrinsics \<Rightarrow> nat \<Rightarrow> nat \<Rightarrow> real \<Rightarrow> npfloat list" where
  "pix2point_at d row col z =
     (let x = np_div (np_sub (Fin (of_int (int col))) (Fin (ppx d))) (Fin (fx d));
          y = np_div (np_sub (Fin (of_int (int row))) (Fin (ppy d))) (Fin (fy d));
          r2 = np_add (np_mul x x) (np_mul y y);
          f = np_add (np_add (np_add (Fin 1) (np_mul (Fin (coeffs d ! 0)) r2))
                             (np_mul (np_mul (Fin (coeffs d ! 1)) r2) r2))
                     (np_mul (np_mul (np_mul (Fin (coeffs d ! 4)) r2) r2) r2);
          ux = np_add (np_add (np_mul x f) (np_mul (np_mul (Fin (2 * coeffs d ! 2)) x) y))
                      (np_mul (Fin (coeffs d ! 3)) (np_add r2 (np_mul (np_mul (Fin 2) x) x)));
          uy = np_add (np_add (np_mul y f) (np_mul (np_mul (Fin (2 * coeffs d ! 3)) x) y))
                      (np_mul (Fin (coeffs d ! 2)) (np_add r2 (np_mul (np_mul (Fin 2) y) y)))
      in [np_mul (Fin z) ux, np_mul (Fin z) uy, Fin z])"

text \<open>
  The coordinates of one pixel as the specification writes them, on real numbers.
\<close>

definition spec_point :: "intrinsics \<Rightarrow> nat \<Rightarrow> nat \<Rightarrow> real \<Rightarrow> real \<times> real \<times> real" where
  "spec_point d row col z =
     (let x = (real col - ppx d) / fx d;
          y = (real row - ppy d) / fy d;
          r2 = x\<^sup>2 + y\<^sup>2;
          f = 1 + coeffs d ! 0 * r2 + coeffs d ! 1 * r2\<^sup>2 + coeffs d ! 4 * r2 ^ 3;
          x' = x * f + 2 * coeffs d ! 2 * x * y + coeffs d ! 3 * (r2 + 2 * x\<^sup>2);
          y' = y * f + 2 * coeffs d ! 3 * x * y + coeffs d ! 2 * (r2 + 2 * y\<^sup>2)
      in (z * x', z * y', z))"

section \<open>tech\_blog\_demo.py: the colours of a point cloud\<close>

text \<open>\<open>a[m]\<close> for a boolean array \<open>m\<close> of the shape of \<open>a\<close>: the selected cells, row by row.\<close>

definition bool_index :: "'a grid \<Rightarrow> bool grid \<Rightarrow> 'a list" where
  "bool_index a m = concat (map2 (\<lambda>row mrow. map fst (filter snd (zip row mrow))) a m)"

text \<open>
  The body of the loop of \<open>_on_click_load_pcd\<close> for the food index \<open>i\<close>. \<open>png\<close> is the
  uint8 image that OpenCV loads, three channels per pixel: \<open>png[food_mask] - 255\<close> is a
  uint8 array again, and the division by 255 makes it a float array.
\<close>

definition food_rgb_of :: "8 word list grid \<Rightarrow> bool grid \<Rightarrow> real list list" where
  "food_rgb_of png food_mask =
     map (map (\<lambda>v. real (unat (v - 255)) / 255)) (bool_index png food_mask)"

definition point_cloud ::
  "int grid \<Rightarrow> 8 word list grid \<Rightarrow> npfloat list grid \<Rightarrow> int \<Rightarrow> npfloat list list \<times> real list list" where
  "point_cloud ranked_food_mask png real_coords i =
     (let food_mask = grid_map (\<lambda>v. v = i) ranked_food_mask;
          food_rgb = food_rgb_of png food_mask;
          food_depth = bool_index real_coords food_mask
      in (food_depth, food_rgb))"

section \<open>Facts about the array operations\<close>

lemma length_mask_assign: "length (mask_assign a b v) = length a"
  by (simp add: mask_assign_def)

lemma length_mask_assign_row: "r < length a \<Longrightarrow> length (mask_assign a b v ! r) = length (a ! r)"
  by (simp add: mask_assign_def nth_enumerate_eq)

lemma mask_assign_nth:
  "r < length a \<Longrightarrow> c < length (a ! r) \<Longrightarrow>
   mask_assign a b v ! r ! c = (if b ! r ! c = 1 then v else a ! r ! c)"
  by (simp add: mask_assign_def nth_enumerate_eq)

lemma length_slice_assign: "length (slice_assign m r0 r1 c0 c1 v) = length m"
  by (simp add: slice_assign_def)

lemma length_slice_assign_row: "r < length m \<Longrightarrow> length (slice_assign m r0 r1 c0 c1 v ! r) = length (m ! r)"
  by (simp add: slice_assign_def nth_enumerate_eq)

lemma slice_assign_nth:
  "r < length m \<Longrightarrow> c < length (m ! r) \<Longrightarrow>
   slice_assign m r0 r1 c0 c1 v ! r ! c =
     (if slice_index r0 (length m) \<le> r \<and> r < slice_index r1 (length m) \<and>
         slice_index c0 (length (m ! r)) \<le> c \<and> c < slice_index c1 (length (m ! r))
      then v else m ! r ! c)"
  by (simp add: slice_assign_def nth_enumerate_eq)

lemma is_grid_np_full: "is_grid (fst sh) (snd sh) (np_full sh v)"
  by (simp add: is_grid_def np_full_def list_all_iff)

lemma is_grid_iff: "is_grid h w g \<longleftrightarrow> length g = h \<and> (\<forall>r<h. length (g ! r) = w)"
  by (auto simp: is_grid_def list_all_length)

lemma np_full_nth: "r < fst sh \<Longrightarrow> c < snd sh \<Longrightarrow> np_full sh v ! r ! c = v"
  by (simp add: np_full_def)

section \<open>The ranking loop\<close>

lemma rank_loop_append:
  "rank_loop ms (xs @ [x]) g =
     (case rank_loop ms xs g of
        Inl e \<Rightarrow> Inl e
      | Inr g' \<Rightarrow> if x < length ms then Inr (mask_assign g' (ms ! x) (int x)) else Inl IndexError)"
  by (induction xs arbitrary: g) auto

lemma is_grid_mask_assign: "is_grid h w a \<Longrightarrow> is_grid h w (mask_assign a b v)"
  by (simp add: is_grid_iff length_mask_assign length_mask_assign_row)

lemma Max_upto_hit:
  fixes P :: "nat \<Rightarrow> bool"
  assumes "P n"
  shows "Max {i. i < Suc n \<and> P i} = n"
  using assms by (intro Max_eqI) auto

lemma Collect_upto_miss:
  fixes P :: "nat \<Rightarrow> bool"
  assumes "\<not> P n"
  shows "{i. i < Suc n \<and> P i} = {i. i < n \<and> P i}"
  using assms less_Suc_eq by auto

lemma rank_loop_upto:
  assumes "n \<le> length ms" and "is_grid h w g"
  shows "\<exists>g'. rank_loop ms [0..<n] g = Inr g' \<and> is_grid h w g' \<and>
           (\<forall>r<h. \<forall>c<w. g' ! r ! c =
              (if \<exists>i<n. ms ! i ! r ! c = 1
               then int (Max {i. i < n \<and> ms ! i ! r ! c = 1})
               else g ! r ! c))"
  using assms(1)
proof (induction n)
  case 0
  then show ?case using assms(2) by simp
next
  case (Suc n)
  then obtain g' where run: "rank_loop ms [0..<n] g = Inr g'"
    and grid: "is_grid h w g'"
    and pix: "\<forall>r<h. \<forall>c<w. g' ! r ! c =
              (if \<exists>i<n. ms ! i ! r ! c = 1
               then int (Max {i. i < n \<and> ms ! i ! r ! c = 1})
               else g ! r ! c)"
    by auto
  let ?g = "mask_assign g' (ms ! n) (int n)"
  from Suc.prems run have "rank_loop ms [0..<Suc n] g = Inr ?g"
    by (simp add: rank_loop_append)
  moreover have "is_grid h w ?g"
    using grid by (rule is_grid_mask_assign)
  moreover have "?g ! r ! c =
              (if \<exists>i<Suc n. ms ! i ! r ! c = 1
               then int (Max {i. i < Suc n \<and> ms ! i ! r ! c = 1})
               else g ! r ! c)" if "r < h" "c < w" for r c
  proof (cases "ms ! n ! r ! c = 1")
    case True
    have "?g ! r ! c = int n"
      using grid that True by (simp add: mask_assign_nth is_grid_iff)
    moreover have "Max {i. i < Suc n \<and> ms ! i ! r ! c = 1} = n"
      using True by (rule Max_upto_hit)
    ultimately show ?thesis using True by auto
  next
    case False
    have "?g ! r ! c = g' ! r ! c"
      using grid that False by (simp add: mask_assign_nth is_grid_iff)
    moreover have "{i. i < Suc n \<and> ms ! i ! r ! c = 1} = {i. i < n \<and> ms ! i ! r ! c = 1}"
      using False by (rule Collect_upto_miss)
    moreover have "(\<exists>i<Suc n. ms ! i ! r ! c = 1) = (\<exists>i<n. ms ! i ! r ! c = 1)"
      using False less_Suc_eq by auto
    ultimately show ?thesis using pix that by auto
  qed
  ultimately show ?case by blast
qed

lemma is_grid_np_full_shape:
  assumes "is_grid h w m0"
  shows "is_grid h w (np_full (shape0 m0, shape1 m0) v)"
proof (cases m0)
  case Nil
  with assms show ?thesis by (simp add: is_grid_def np_full_def shape0_def shape1_def)
next
  case (Cons row rest)
  with assms show ?thesis
    by (auto simp: is_grid_def np_full_def shape0_def shape1_def list_all_iff)
qed

lemma np_full_shape_nth:
  assumes "is_grid h w m0" "r < h" "c < w"
  shows "np_full (shape0 m0, shape1 m0) v ! r ! c = v"
proof (cases m0)
  case Nil
  with assms show ?thesis by (simp add: is_grid_def)
next
  case (Cons row rest)
  with assms show ?thesis
    by (auto simp: is_grid_def np_full_def shape0_def shape1_def)
qed

lemma get_food_mask_run:
  assumes ne: "masks res \<noteq> []"
    and len: "length (class_names res) = length (masks res)"
    and grids: "\<forall>m\<in>set (masks res). is_grid h w m"
  shows "\<exists>ranked. get_food_mask res =
            Inr (ranked, filter (\<lambda>u. u \<noteq> - 1) (map astype_int16 (np_unique ranked))) \<and>
          is_grid h w ranked \<and>
          (\<forall>r<h. \<forall>c<w. ranked ! r ! c =
              (if \<exists>i<length (masks res). masks res ! i ! r ! c = 1
               then int (Max {i. i < length (masks res) \<and> masks res ! i ! r ! c = 1})
               else - 1))"
proof -
  from ne obtain m0 rest where ms: "masks res = m0 # rest"
    by (cases "masks res") auto
  with grids have g0: "is_grid h w m0" by simp
  let ?init = "np_full (shape0 m0, shape1 m0) non_food_value"
  have "is_grid h w ?init"
    using g0 by (rule is_grid_np_full_shape)
  from rank_loop_upto [OF order_refl this, of "masks res"]
  obtain ranked where run: "rank_loop (masks res) [0..<length (masks res)] ?init = Inr ranked"
    and grid: "is_grid h w ranked"
    and pix: "\<forall>r<h. \<forall>c<w. ranked ! r ! c =
              (if \<exists>i<length (masks res). masks res ! i ! r ! c = 1
               then int (Max {i. i < length (masks res) \<and> masks res ! i ! r ! c = 1})
               else ?init ! r ! c)"
    by blast
  have init: "?init ! r ! c = - 1" if "r < h" "c < w" for r c
    using np_full_shape_nth [OF g0 that] by (simp add: non_food_value_def)
  have "get_food_mask res =
          Inr (ranked, filter (\<lambda>u. u \<noteq> - 1) (map astype_int16 (np_unique ranked)))"
    using run ms len by (simp add: get_food_mask_def non_food_value_def)
  with grid pix init show ?thesis by auto
qed

lemma astype_int16_id:
  assumes "- 32768 \<le> v" "v < 32768"
  shows "astype_int16 v = v"
proof -
  have "signed_take_bit 15 v = v"
    using assms by (intro signed_take_bit_int_eq_self) simp_all
  then show ?thesis by (simp add: astype_int16_def sint_sbintrunc')
qed

lemma filter_unique_eq:
  fixes xs :: "int list"
  shows "filter (\<lambda>u. u \<noteq> a) (sort (remdups xs)) = sorted_list_of_set (set xs - {a})"
proof (rule sorted_distinct_set_unique)
  show "sorted (filter (\<lambda>u. u \<noteq> a) (sort (remdups xs)))"
    by (rule sorted_wrt_filter) simp
  show "distinct (filter (\<lambda>u. u \<noteq> a) (sort (remdups xs)))"
    by simp
  show "sorted (sorted_list_of_set (set xs - {a}))" by simp
  show "distinct (sorted_list_of_set (set xs - {a}))" by simp
  show "set (filter (\<lambda>u. u \<noteq> a) (sort (remdups xs))) = set (sorted_list_of_set (set xs - {a}))"
    by auto
qed

lemma in_concat_grid:
  assumes "is_grid h w g" "v \<in> set (concat g)"
  obtains r c where "r < h" "c < w" "v = g ! r ! c"
proof -
  from assms(2) obtain row where "row \<in> set g" "v \<in> set row" by auto
  then obtain r c where "r < length g" "row = g ! r" "c < length row" "v = row ! c"
    by (metis in_set_conv_nth)
  with assms(1) that show thesis by (auto simp: is_grid_iff)
qed

lemma grid_1x1:
  assumes "is_grid 1 1 g" shows "g = [[g ! 0 ! 0]]"
proof -
  from assms have "length g = 1" "length (g ! 0) = 1" by (simp_all add: is_grid_iff)
  then show ?thesis
    by (metis One_nat_def length_0_conv length_Suc_conv nth_Cons_0)
qed

section \<open>Last writer wins\<close>

text \<open>
  C2. For a non-empty list of masks of one shape (with one class name per mask), the ranker
  returns a label image of that shape, and at every pixel the label is the largest index
  whose mask is 1 there, or -1 when no mask is 1 there. So where a later mask and an earlier
  mask are both 1, the label is not the earlier index and is at least the later one.
\<close>

theorem get_food_mask_last_writer_wins:
  assumes "masks res \<noteq> []"
    and "length (class_names res) = length (masks res)"
    and "\<forall>m\<in>set (masks res). is_grid h w m"
    and "r < h" and "c < w"
  shows "\<exists>ranked food_indices.
           get_food_mask res = Inr (ranked, food_indices) \<and> is_grid h w ranked \<and>
           ranked ! r ! c =
             (if \<exists>i<length (masks res). masks res ! i ! r ! c = 1
              then int (Max {i. i < length (masks res) \<and> masks res ! i ! r ! c = 1})
              else - 1) \<and>
           (\<forall>e l. e < l \<and> l < length (masks res) \<and>
                  masks res ! e ! r ! c = 1 \<and> masks res ! l ! r ! c = 1
                  \<longrightarrow> ranked ! r ! c \<noteq> int e \<and> int l \<le> ranked ! r ! c)"
proof -
  let ?S = "{i. i < length (masks res) \<and> masks res ! i ! r ! c = 1}"
  from get_food_mask_run [OF assms(1-3)]
  obtain ranked where run: "get_food_mask res =
            Inr (ranked, filter (\<lambda>u. u \<noteq> - 1) (map astype_int16 (np_unique ranked)))"
    and grid: "is_grid h w ranked"
    and pix: "\<forall>r<h. \<forall>c<w. ranked ! r ! c =
              (if \<exists>i<length (masks res). masks res ! i ! r ! c = 1
               then int (Max {i. i < length (masks res) \<and> masks res ! i ! r ! c = 1})
               else - 1)"
    by blast
  have here: "ranked ! r ! c = (if \<exists>i<length (masks res). masks res ! i ! r ! c = 1
              then int (Max ?S) else - 1)"
    using pix assms(4,5) by blast
  have over: "ranked ! r ! c \<noteq> int e \<and> int l \<le> ranked ! r ! c"
    if "e < l" "l < length (masks res)" "masks res ! e ! r ! c = 1" "masks res ! l ! r ! c = 1"
    for e l
  proof -
    have "l \<in> ?S" using that by simp
    then have "l \<le> Max ?S" by (intro Max_ge) simp_all
    moreover have "ranked ! r ! c = int (Max ?S)"
      using here that by auto
    ultimately show ?thesis using that(1) by simp
  qed
  show ?thesis
    using run grid here over by blast
qed

lemma two_masks_grid:
  "\<forall>m\<in>set [[[1, 1, 0], [0, 1, 0]], [[0, 1, 1], [0, 0, 0 :: 8 word]]]. is_grid 2 3 m"
  by (simp add: is_grid_def)

theorem get_food_mask_last_writer_wins_witness:
  "\<exists>ranked food_indices.
     get_food_mask \<lparr>class_names = [''rice'', ''soup''], scores = [None, None],
                    masks = [[[1, 1, 0], [0, 1, 0]], [[0, 1, 1], [0, 0, 0]]]\<rparr>
       = Inr (ranked, food_indices) \<and>
     is_grid 2 3 ranked \<and> ranked ! 0 ! 1 \<noteq> 0 \<and> 1 \<le> ranked ! 0 ! 1"
  using get_food_mask_last_writer_wins
    [of "\<lparr>class_names = [''rice'', ''soup''], scores = [None, None],
                    masks = [[[1, 1, 0], [0, 1, 0]], [[0, 1, 1], [0, 0, 0]]]\<rparr>" 2 3 0 1]
  apply (simp add: two_masks_grid is_grid_def)
  apply (elim exE conjE)
  apply (drule_tac x = 0 in spec)
  apply (drule_tac x = 1 in spec)
  apply simp
  done

section \<open>The indices present in the label image\<close>

text \<open>
  Up to 32768 masks, the indices returned are the distinct values of the label image other
  than -1, ascending, and an instance whose mask is covered, pixel by pixel, by masks of
  later instances is not among them.
\<close>

theorem get_food_mask_present_indices:
  assumes ne: "masks res \<noteq> []"
    and len: "length (class_names res) = length (masks res)"
    and grids: "\<forall>m\<in>set (masks res). is_grid h w m"
    and small: "length (masks res) \<le> 32768"
  shows "\<exists>ranked food_indices.
           get_food_mask res = Inr (ranked, food_indices) \<and>
           food_indices = sorted_list_of_set (set (concat ranked) - {- 1}) \<and>
           (\<forall>i<length (masks res).
              (\<forall>r<h. \<forall>c<w. masks res ! i ! r ! c = 1 \<longrightarrow>
                 (\<exists>j. i < j \<and> j < length (masks res) \<and> masks res ! j ! r ! c = 1))
              \<longrightarrow> int i \<notin> set food_indices)"
proof -
  let ?n = "length (masks res)"
  from get_food_mask_run [OF ne len grids]
  obtain ranked where run: "get_food_mask res =
            Inr (ranked, filter (\<lambda>u. u \<noteq> - 1) (map astype_int16 (np_unique ranked)))"
    and grid: "is_grid h w ranked"
    and pix: "\<forall>r<h. \<forall>c<w. ranked ! r ! c =
              (if \<exists>i<?n. masks res ! i ! r ! c = 1
               then int (Max {i. i < ?n \<and> masks res ! i ! r ! c = 1})
               else - 1)"
    by blast
  let ?fi = "filter (\<lambda>u. u \<noteq> - 1) (map astype_int16 (np_unique ranked))"
  have top: "Max {i. i < ?n \<and> P i} \<in> {i. i < ?n \<and> P i}" if "\<exists>i<?n. P i" for P
    using that by (intro Max_in) auto
  have range: "- 1 \<le> v \<and> v < int ?n" if "v \<in> set (concat ranked)" for v
  proof -
    from grid that obtain r c where rc: "r < h" "c < w" "v = ranked ! r ! c"
      by (rule in_concat_grid)
    show ?thesis
    proof (cases "\<exists>i<?n. masks res ! i ! r ! c = 1")
      case True
      from top [of "\<lambda>i. masks res ! i ! r ! c = 1", OF True]
      have "Max {i. i < ?n \<and> masks res ! i ! r ! c = 1} < ?n" by simp
      with True pix rc show ?thesis by simp
    next
      case False
      with pix rc have "v = - 1" by simp
      with ne show ?thesis by simp
    qed
  qed
  have "map astype_int16 (np_unique ranked) = np_unique ranked"
  proof (rule map_idI)
    fix v assume "v \<in> set (np_unique ranked)"
    then have "v \<in> set (concat ranked)" by (simp add: np_unique_def)
    from range [OF this] small show "astype_int16 v = v"
      by (intro astype_int16_id) simp_all
  qed
  then have fi: "?fi = sorted_list_of_set (set (concat ranked) - {- 1})"
    by (simp add: np_unique_def filter_unique_eq)
  have absent: "int i \<notin> set ?fi"
    if i: "i < ?n"
      and cover: "\<forall>r<h. \<forall>c<w. masks res ! i ! r ! c = 1 \<longrightarrow>
                 (\<exists>j. i < j \<and> j < ?n \<and> masks res ! j ! r ! c = 1)"
    for i
  proof
    assume "int i \<in> set ?fi"
    with fi have "int i \<in> set (concat ranked)" by simp
    with grid obtain r c where rc: "r < h" "c < w" "int i = ranked ! r ! c"
      by (rule in_concat_grid)
    let ?S = "{k. k < ?n \<and> masks res ! k ! r ! c = 1}"
    from rc pix have ex: "\<exists>k<?n. masks res ! k ! r ! c = 1"
      by (auto split: if_splits)
    with rc pix have "i = Max ?S" by simp
    moreover from top [of "\<lambda>k. masks res ! k ! r ! c = 1", OF ex] have "Max ?S \<in> ?S" .
    ultimately have "masks res ! i ! r ! c = 1" by simp
    with cover rc obtain j where j: "i < j" "j < ?n" "masks res ! j ! r ! c = 1" by blast
    then have "j \<in> ?S" by simp
    then have "j \<le> Max ?S" by (intro Max_ge) simp_all
    with \<open>i = Max ?S\<close> j(1) show False by simp
  qed
  show ?thesis using run fi absent by blast
qed

lemma covered_masks_grid:
  "\<forall>m\<in>set [[[0, 1], [0, 0]], [[1, 1], [0, 0 :: 8 word]]]. is_grid 2 2 m"
  by (simp add: is_grid_def)

theorem get_food_mask_present_indices_witness:
  "\<exists>ranked food_indices.
     get_food_mask \<lparr>class_names = [''plate'', ''rice''], scores = [None, None],
                    masks = [[[0, 1], [0, 0]], [[1, 1], [0, 0]]]\<rparr>
       = Inr (ranked, food_indices) \<and>
     food_indices = sorted_list_of_set (set (concat ranked) - {- 1}) \<and>
     0 \<notin> set food_indices"
proof -
  let ?res = "\<lparr>class_names = [''plate'', ''rice''], scores = [None, None],
                    masks = [[[0, 1], [0, 0]], [[1, 1], [0, 0 :: 8 word]]]\<rparr>"
  have covered: "\<forall>r<2. \<forall>c<2. masks ?res ! 0 ! r ! c = 1 \<longrightarrow>
                 (\<exists>j. 0 < j \<and> j < length (masks ?res) \<and> masks ?res ! j ! r ! c = 1)"
    by (auto simp: less_Suc_eq numeral_2_eq_2 intro!: exI [of _ 1])
  from get_food_mask_present_indices [of ?res 2 2] covered_masks_grid
  obtain ranked food_indices where
    run: "get_food_mask ?res = Inr (ranked, food_indices)"
    and fi: "food_indices = sorted_list_of_set (set (concat ranked) - {- 1})"
    and absent: "\<forall>i<length (masks ?res).
              (\<forall>r<2. \<forall>c<2. masks ?res ! i ! r ! c = 1 \<longrightarrow>
                 (\<exists>j. i < j \<and> j < length (masks ?res) \<and> masks ?res ! j ! r ! c = 1))
              \<longrightarrow> int i \<notin> set food_indices"
    by auto
  have "0 < length (masks ?res)" by simp
  with absent covered have "int 0 \<notin> set food_indices" by blast
  then have "0 \<notin> set food_indices" by simp
  with run fi show ?thesis by blast
qed

text \<open>
  C3. The indices returned are to be the distinct values of the label image other than -1,
  ascending. They are not for every mask set: the values pass through \<open>astype("int16")\<close>
  before -1 is filtered out. With 32769 masks on a grid of one pixel, all of them 1 there,
  the label image holds the index 32768, and the index returned for it is -32768.
\<close>

theorem get_food_mask_index_32768:
  "get_food_mask \<lparr>class_names = replicate 32769 ''food'', scores = replicate 32769 None,
                  masks = replicate 32769 [[1]]\<rparr> = Inr ([[32768]], [- 32768]) \<and>
   sorted_list_of_set (set (concat [[32768 :: int]]) - {- 1}) = [32768]"
proof -
  let ?res = "\<lparr>class_names = replicate 32769 ''food'', scores = replicate 32769 None,
                  masks = replicate 32769 [[1 :: 8 word]]\<rparr>"
  have "masks ?res \<noteq> []" by simp
  moreover have "length (class_names ?res) = length (masks ?res)" by simp
  moreover have "\<forall>m\<in>set (masks ?res). is_grid 1 1 m" by (simp add: is_grid_def)
  ultimately obtain ranked where run: "get_food_mask ?res =
            Inr (ranked, filter (\<lambda>u. u \<noteq> - 1) (map astype_int16 (np_unique ranked)))"
    and grid: "is_grid 1 1 ranked"
    and pix: "\<forall>r<1. \<forall>c<1. ranked ! r ! c =
              (if \<exists>i<length (masks ?res). masks ?res ! i ! r ! c = 1
               then int (Max {i. i < length (masks ?res) \<and> masks ?res ! i ! r ! c = 1})
               else - 1)"
    using get_food_mask_run [of ?res 1 1] by blast
  have S: "{i. i < length (masks ?res) \<and> masks ?res ! i ! 0 ! 0 = 1} = {i. i < 32769}"
    by auto
  have "Max {i::nat. i < 32769} = 32768"
    by (intro Max_eqI) auto
  moreover have "\<exists>i<length (masks ?res). masks ?res ! i ! 0 ! 0 = 1"
    by (intro exI [of _ 0]) simp
  ultimately have "ranked ! 0 ! 0 = 32768"
    using pix S by simp
  with grid_1x1 [OF grid] have ranked: "ranked = [[32768]]" by simp
  have "astype_int16 32768 = - 32768"
    by (simp add: astype_int16_def)
  then have "filter (\<lambda>u. u \<noteq> - 1) (map astype_int16 (np_unique [[32768]])) = [- 32768]"
    by (simp add: np_unique_def)
  with run ranked show ?thesis by simp
qed

section \<open>Empty annotation documents\<close>

text \<open>
  C5. A document with no shape decodes to a result with no mask, whatever the grid. The
  ranker cannot take this result: \<open>results["masks"][0]\<close> reads the shape of the first
  mask, and with no mask it raises IndexError instead of returning an all-background
  label image and no index.
\<close>

theorem empty_document_decodes_then_ranker_raises:
  "json2results polygon \<lparr>shapes = []\<rparr> shape' = Inr \<lparr>class_names = [], scores = [], masks = []\<rparr> \<and>
   get_food_mask \<lparr>class_names = [], scores = [], masks = []\<rparr> = Inl IndexError"
  by (simp add: json2results_def get_food_mask_def)

section \<open>Rectangle annotations\<close>

lemma astype_int64_of_int:
  "- (2 ^ 63) \<le> k \<Longrightarrow> k < 2 ^ 63 \<Longrightarrow> astype_int64 (of_int k) = Inr k"
  by (simp add: astype_int64_def)

lemma slice_index_nonneg: "0 \<le> i \<Longrightarrow> slice_index i n = min (nat i) n"
  by (simp add: slice_index_def)

lemma decode_mask_rectangle:
  assumes "shape_type s = ''rectangle''"
    and "points s = [(of_int col0, of_int row0), (of_int col1, of_int row1)]"
    and "0 \<le> col0" "col0 < 2 ^ 63" "0 \<le> col1" "col1 < 2 ^ 63"
    and "0 \<le> row0" "row0 < 2 ^ 63" "0 \<le> row1" "row1 < 2 ^ 63"
  shows "decode_mask polygon s sh = Inr (slice_assign (np_full sh 0) row0 row1 col0 col1 1)"
proof -
  have "astype_int64 (of_int col0) = Inr col0" "astype_int64 (of_int row0) = Inr row0"
    "astype_int64 (of_int col1) = Inr col1" "astype_int64 (of_int row1) = Inr row1"
    using assms(3-10) by (simp_all add: astype_int64_of_int)
  then have "astype_int64_points (points s) = Inr [(col0, row0), (col1, row1)]"
    using assms(2) by simp
  then show ?thesis
    using assms(1) by (simp add: decode_mask_def)
qed

lemma is_grid_slice_assign: "is_grid h w m \<Longrightarrow> is_grid h w (slice_assign m r0 r1 c0 c1 v)"
  by (simp add: is_grid_iff length_slice_assign length_slice_assign_row)

lemma rectangle_cell:
  assumes "0 \<le> row0" "0 \<le> row1" "0 \<le> col0" "0 \<le> col1" "r < h" "c < w"
  shows "slice_assign (np_full (h, w) 0) row0 row1 col0 col1 (1 :: 8 word) ! r ! c =
           (if row0 \<le> int r \<and> int r < min row1 (int h) \<and> col0 \<le> int c \<and> int c < min col1 (int w)
            then 1 else 0)"
proof -
  have g: "is_grid h w (np_full (h, w) (0 :: 8 word))"
    using is_grid_np_full [of "(h, w)"] by simp
  then have len: "length (np_full (h, w) (0 :: 8 word)) = h"
    "length (np_full (h, w) (0 :: 8 word) ! r) = w"
    using assms(5) by (simp_all add: is_grid_iff)
  have cell: "np_full (h, w) (0 :: 8 word) ! r ! c = 0"
    using assms(5,6) by (simp add: np_full_nth)
  have "slice_index row0 h \<le> r \<longleftrightarrow> row0 \<le> int r"
    using assms by (auto simp: slice_index_nonneg)
  moreover have "r < slice_index row1 h \<longleftrightarrow> int r < min row1 (int h)"
    using assms by (auto simp: slice_index_nonneg)
  moreover have "slice_index col0 w \<le> c \<longleftrightarrow> col0 \<le> int c"
    using assms by (auto simp: slice_index_nonneg)
  moreover have "c < slice_index col1 w \<longleftrightarrow> int c < min col1 (int w)"
    using assms by (auto simp: slice_index_nonneg)
  ultimately show ?thesis
    using assms(5,6) len cell by (simp add: slice_assign_nth)
qed

lemma json2results_loop_all_decoded:
  assumes "\<forall>s\<in>set ss. \<exists>m. decode_mask polygon s sh = Inr m"
  shows "json2results_loop polygon ss sh res =
           Inr (res\<lparr>class_names := class_names res @ map label ss,
                    scores := scores res @ map scores_cls ss,
                    masks := masks res @ map (\<lambda>s. projr (decode_mask polygon s sh)) ss\<rparr>)"
  using assms by (induction ss arbitrary: res) auto

lemma json2results_all_decoded:
  assumes "\<forall>j<length (shapes data). \<exists>m. decode_mask polygon (shapes data ! j) sh = Inr m"
  shows "json2results polygon data sh =
           Inr \<lparr>class_names = map label (shapes data),
                scores = map scores_cls (shapes data),
                masks = map (\<lambda>s. projr (decode_mask polygon s sh)) (shapes data)\<rparr>"
proof -
  from assms have "\<forall>s\<in>set (shapes data). \<exists>m. decode_mask polygon s sh = Inr m"
    by (metis in_set_conv_nth)
  from json2results_loop_all_decoded [OF this] show ?thesis
    by (simp add: json2results_def)
qed

lemma is_grid_np_full_hw: "is_grid h w (np_full (h, w) v)"
  using is_grid_np_full [of "(h, w)" v] by simp

lemma json2results_mask_at:
  assumes k: "k < length (shapes data)"
    and here: "decode_mask polygon (shapes data ! k) sh = Inr m"
    and others: "\<forall>j<length (shapes data). j \<noteq> k \<longrightarrow>
                   (\<exists>m. decode_mask polygon (shapes data ! j) sh = Inr m)"
  shows "\<exists>res. json2results polygon data sh = Inr res \<and>
           length (masks res) = length (shapes data) \<and> masks res ! k = m"
proof -
  have "\<forall>j<length (shapes data). \<exists>m. decode_mask polygon (shapes data ! j) sh = Inr m"
    using here others by metis
  from json2results_all_decoded [OF this] k here show ?thesis by simp
qed

text \<open>
  C7. In a document decoded on a grid of \<open>h\<close> rows and \<open>w\<close> columns (an ndarray has fewer
  than \<open>2^63\<close> of each), let annotation \<open>k\<close> be a rectangle with the integer corners
  (col0, row0) and (col1, row1), both inside the grid. If the other annotations decode,
  the decoder returns one mask per annotation, and mask \<open>k\<close> is 1 exactly on the rows
  row0 \<open>\<le>\<close> r < row1 and the columns col0 \<open>\<le>\<close> c < col1, and 0 elsewhere. On a 5 by 5 grid
  the corners (1, 1) and (3, 3) give rows 1, 2 and columns 1, 2.
\<close>

theorem json2results_rectangle_mask:
  assumes "k < length (shapes data)"
    and "shape_type (shapes data ! k) = ''rectangle''"
    and "points (shapes data ! k) = [(of_int col0, of_int row0), (of_int col1, of_int row1)]"
    and "0 \<le> col0" "col0 \<le> int w" "0 \<le> col1" "col1 \<le> int w"
    and "0 \<le> row0" "row0 \<le> int h" "0 \<le> row1" "row1 \<le> int h"
    and "\<forall>j<length (shapes data). j \<noteq> k \<longrightarrow>
           (\<exists>m. decode_mask polygon (shapes data ! j) (h, w) = Inr m)"
    and "h < 2 ^ 63" "w < 2 ^ 63"
  shows "\<exists>res. json2results polygon data (h, w) = Inr res \<and>
           length (masks res) = length (shapes data) \<and>
           is_grid h w (masks res ! k) \<and>
           (\<forall>r<h. \<forall>c<w. masks res ! k ! r ! c =
              (if row0 \<le> int r \<and> int r < row1 \<and> col0 \<le> int c \<and> int c < col1 then 1 else 0))"
proof -
  let ?m = "slice_assign (np_full (h, w) 0) row0 row1 col0 col1 (1 :: 8 word)"
  have hw: "int h < 2 ^ 63" "int w < 2 ^ 63"
    using assms(13,14) by simp_all
  have fit: "col0 < 2 ^ 63" "col1 < 2 ^ 63" "row0 < 2 ^ 63" "row1 < 2 ^ 63"
    using assms(5) hw(2) apply (rule le_less_trans)
    using assms(7) hw(2) apply (rule le_less_trans)
    using assms(9) hw(1) apply (rule le_less_trans)
    using assms(11) hw(1) apply (rule le_less_trans)
    done
  have "decode_mask polygon (shapes data ! k) (h, w) = Inr ?m"
    using assms(2,3,4) fit(1) assms(6) fit(2) assms(8) fit(3) assms(10) fit(4)
    by (rule decode_mask_rectangle)
  from json2results_mask_at [OF assms(1) this assms(12)]
  obtain res where res: "json2results polygon data (h, w) = Inr res"
    "length (masks res) = length (shapes data)" "masks res ! k = ?m"
    by blast
  have "is_grid h w ?m"
    by (intro is_grid_slice_assign is_grid_np_full_hw)
  moreover have "?m ! r ! c =
      (if row0 \<le> int r \<and> int r < row1 \<and> col0 \<le> int c \<and> int c < col1 then 1 else 0)"
    if "r < h" "c < w" for r c
    using rectangle_cell [OF assms(8) assms(10) assms(4) assms(6) that] assms(7,11)
    by (simp add: min_def)
  ultimately show ?thesis using res by auto
qed

theorem json2results_rectangle_mask_witness:
  "\<exists>res. json2results (\<lambda>rows cols sh. [])
            \<lparr>shapes = [\<lparr>label = ''rice'', points = [(1, 1), (3, 3)],
                        shape_type = ''rectangle'', scores_cls = None\<rparr>]\<rparr> (5, 5) = Inr res \<and>
         length (masks res) = 1 \<and> is_grid 5 5 (masks res ! 0) \<and>
         (\<forall>r<5. \<forall>c<5. masks res ! 0 ! r ! c =
            (if 1 \<le> r \<and> r < 3 \<and> 1 \<le> c \<and> c < 3 then 1 else 0))"
  using json2results_rectangle_mask
      [of 0 "\<lparr>shapes = [\<lparr>label = ''rice'', points = [(1, 1), (3, 3)],
                        shape_type = ''rectangle'', scores_cls = None\<rparr>]\<rparr>"
          1 1 3 3 5 5 "\<lambda>rows cols sh. []"]
  by simp






section \<open>Annotations of another kind\<close>

lemma decode_mask_not_rectangle:
  "shape_type s \<noteq> ''rectangle'' \<Longrightarrow>
   decode_mask polygon (s\<lparr>shape_type := ''polygon''\<rparr>) sh = decode_mask polygon s sh"
  by (simp add: decode_mask_def split: sum.splits)

lemma json2results_loop_as_polygon:
  "json2results_loop polygon
     (map (\<lambda>s. if shape_type s = ''rectangle'' then s else s\<lparr>shape_type := ''polygon''\<rparr>) ss) sh res =
   json2results_loop polygon ss sh res"
  by (induction ss arbitrary: res) (auto simp: decode_mask_not_rectangle split: sum.splits)

text \<open>
  C6, as the code has it. The decoder tests the kind of an annotation against
  \<open>'rectangle'\<close> only: every other kind, known or not, takes the polygon branch. A
  document decodes as the document in which each kind other than \<open>'rectangle'\<close> is
  replaced by \<open>'polygon'\<close>.
\<close>

theorem json2results_other_kind_as_polygon:
  "json2results polygon data sh =
   json2results polygon
     (data\<lparr>shapes := map (\<lambda>s. if shape_type s = ''rectangle'' then s
                               else s\<lparr>shape_type := ''polygon''\<rparr>) (shapes data)\<rparr>) sh"
  by (simp add: json2results_def json2results_loop_as_polygon)

theorem json2results_other_kind_as_polygon_witness:
  "json2results (\<lambda>rows cols sh. [(1, 1)])
     \<lparr>shapes = [\<lparr>label = ''soup'', points = [(1, 1), (3, 1), (2, 3)],
                 shape_type = ''circle'', scores_cls = None\<rparr>]\<rparr> (4, 4) =
   json2results (\<lambda>rows cols sh. [(1, 1)])
     \<lparr>shapes = [\<lparr>label = ''soup'', points = [(1, 1), (3, 1), (2, 3)],
                 shape_type = ''polygon'', scores_cls = None\<rparr>]\<rparr> (4, 4)"
  using json2results_other_kind_as_polygon
     [of "\<lambda>rows cols sh. [(1, 1)]"
         "\<lparr>shapes = [\<lparr>label = ''soup'', points = [(1, 1), (3, 1), (2, 3)],
                 shape_type = ''circle'', scores_cls = None\<rparr>]\<rparr>" "(4, 4)"]
  by simp

text \<open>
  An annotation of kind \<open>'circle'\<close> raises no error. Its vertices lie outside the 2 by 3
  grid, where the rasteriser fills no pixel: the mask is all zero.
\<close>

theorem json2results_circle_counterexample:
  "json2results (\<lambda>rows cols sh. [])
     \<lparr>shapes = [\<lparr>label = ''soup'', points = [(10, 10), (12, 10), (11, 12)],
                 shape_type = ''circle'', scores_cls = None\<rparr>]\<rparr> (2, 3) =
   Inr \<lparr>class_names = [''soup''], scores = [None], masks = [[[0, 0, 0], [0, 0, 0]]]\<rparr>"
proof -
  have "astype_int64 10 = Inr 10" "astype_int64 11 = Inr 11" "astype_int64 12 = Inr 12"
    by (simp_all add: astype_int64_def)
  then show ?thesis
    by (simp add: json2results_def decode_mask_def poly2mask_def upt_rec)
qed

section \<open>The coordinate field\<close>

lemma length_grid_map: "length (grid_map f g) = length g"
  by (simp add: grid_map_def)

lemma length_grid_map_row: "r < length g \<Longrightarrow> length (grid_map f g ! r) = length (g ! r)"
  by (simp add: grid_map_def)

lemma grid_map_nth:
  "r < length g \<Longrightarrow> c < length (g ! r) \<Longrightarrow> grid_map f g ! r ! c = f (g ! r ! c)"
  by (simp add: grid_map_def)

lemma length_grid_map2: "length (grid_map2 f a b) = min (length a) (length b)"
  by (simp add: grid_map2_def)

lemma length_grid_map2_row:
  "r < length a \<Longrightarrow> r < length b \<Longrightarrow>
   length (grid_map2 f a b ! r) = min (length (a ! r)) (length (b ! r))"
  by (simp add: grid_map2_def)

lemma grid_map2_nth:
  "r < length a \<Longrightarrow> r < length b \<Longrightarrow> c < length (a ! r) \<Longrightarrow> c < length (b ! r) \<Longrightarrow>
   grid_map2 f a b ! r ! c = f (a ! r ! c) (b ! r ! c)"
  by (simp add: grid_map2_def)

lemma is_grid_grid_map: "is_grid h w g \<Longrightarrow> is_grid h w (grid_map f g)"
  by (simp add: is_grid_iff length_grid_map length_grid_map_row)

lemma is_grid_grid_map2: "is_grid h w a \<Longrightarrow> is_grid h w b \<Longrightarrow> is_grid h w (grid_map2 f a b)"
  by (simp add: is_grid_iff length_grid_map2 length_grid_map2_row)

lemma is_grid_meshgrid:
  "is_grid h w (fst (meshgrid w h))" "is_grid h w (snd (meshgrid w h))"
  by (simp_all add: meshgrid_def is_grid_iff)

lemma meshgrid_nth:
  "r < h \<Longrightarrow> c < w \<Longrightarrow> fst (meshgrid w h) ! r ! c = int c"
  "r < h \<Longrightarrow> c < w \<Longrightarrow> snd (meshgrid w h) ! r ! c = int r"
  by (simp_all add: meshgrid_def)

lemma shape_of_grid:
  assumes "is_grid h w g" "0 < h"
  shows "shape0 g = h" "shape1 g = w"
  using assms by (cases g; auto simp: is_grid_def shape0_def shape1_def)+

lemma transpose_120_nth:
  "r < h \<Longrightarrow> c < w \<Longrightarrow> transpose_120 h w planes ! r ! c = map (\<lambda>a. a ! r ! c) planes"
  by (simp add: transpose_120_def)

lemma is_grid_transpose_120: "is_grid h w (transpose_120 h w planes)"
  by (simp add: transpose_120_def is_grid_iff)

lemma grid_map_cell:
  "is_grid h w g \<Longrightarrow> r < h \<Longrightarrow> c < w \<Longrightarrow> grid_map f g ! r ! c = f (g ! r ! c)"
  by (simp add: is_grid_iff grid_map_nth)

lemma grid_map2_cell:
  "is_grid h w a \<Longrightarrow> is_grid h w b \<Longrightarrow> r < h \<Longrightarrow> c < w \<Longrightarrow>
   grid_map2 f a b ! r ! c = f (a ! r ! c) (b ! r ! c)"
  by (simp add: is_grid_iff grid_map2_nth)

lemma is_grid_ops:
  "is_grid h w a \<Longrightarrow> is_grid h w (sadd s a)"
  "is_grid h w a \<Longrightarrow> is_grid h w (smul s a)"
  "is_grid h w a \<Longrightarrow> is_grid h w b \<Longrightarrow> is_grid h w (gadd a b)"
  "is_grid h w a \<Longrightarrow> is_grid h w b \<Longrightarrow> is_grid h w (gmul a b)"
  by (simp_all add: sadd_def smul_def gadd_def gmul_def is_grid_grid_map is_grid_grid_map2)

lemma cell_ops:
  "is_grid h w a \<Longrightarrow> r < h \<Longrightarrow> c < w \<Longrightarrow> sadd s a ! r ! c = np_add (Fin s) (a ! r ! c)"
  "is_grid h w a \<Longrightarrow> r < h \<Longrightarrow> c < w \<Longrightarrow> smul s a ! r ! c = np_mul (Fin s) (a ! r ! c)"
  "is_grid h w a \<Longrightarrow> is_grid h w b \<Longrightarrow> r < h \<Longrightarrow> c < w \<Longrightarrow>
     gadd a b ! r ! c = np_add (a ! r ! c) (b ! r ! c)"
  "is_grid h w a \<Longrightarrow> is_grid h w b \<Longrightarrow> r < h \<Longrightarrow> c < w \<Longrightarrow>
     gmul a b ! r ! c = np_mul (a ! r ! c) (b ! r ! c)"
  by (simp_all add: sadd_def smul_def gadd_def gmul_def grid_map_cell grid_map2_cell)

lemma pix2point_cell:
  assumes depth: "is_grid h w depth"
    and co: "5 \<le> length (coeffs d)"
    and rc: "row < h" "col < w"
  shows "\<exists>field. pix2point depth d = Inr field \<and> is_grid h w field \<and>
           field ! row ! col = pix2point_at d row col (depth ! row ! col)"
proof -
  from rc have sh: "shape0 depth = h" "shape1 depth = w"
    using shape_of_grid [OF depth] by simp_all
  define x where "x = grid_map (\<lambda>v. np_div v (Fin (fx d)))
                (grid_map (\<lambda>i. np_sub (Fin (of_int i)) (Fin (ppx d))) (fst (meshgrid w h)))"
  define y where "y = grid_map (\<lambda>v. np_div v (Fin (fy d)))
                (grid_map (\<lambda>i. np_sub (Fin (of_int i)) (Fin (ppy d))) (snd (meshgrid w h)))"
  define r2 where "r2 = gadd (gmul x x) (gmul y y)"
  define f where "f = gadd (gadd (sadd 1 (smul (coeffs d ! 0) r2))
                               (gmul (smul (coeffs d ! 1) r2) r2))
                         (gmul (gmul (smul (coeffs d ! 4) r2) r2) r2)"
  define ux where "ux = gadd (gadd (gmul x f) (gmul (smul (2 * coeffs d ! 2) x) y))
                          (smul (coeffs d ! 3) (gadd r2 (gmul (smul 2 x) x)))"
  define uy where "uy = gadd (gadd (gmul y f) (gmul (smul (2 * coeffs d ! 3) x) y))
                          (smul (coeffs d ! 2) (gadd r2 (gmul (smul 2 y) y)))"
  define depth_f where "depth_f = grid_map Fin depth"
  let ?field = "transpose_120 h w [gmul depth_f ux, gmul depth_f uy, depth_f]"
  have run: "pix2point depth d = Inr ?field"
    using co
    by (simp add: pix2point_def Let_def sh case_prod_beta
        x_def y_def r2_def f_def ux_def uy_def depth_f_def)
  note g = is_grid_ops is_grid_grid_map is_grid_meshgrid
  note cell = cell_ops(3,4) [OF _ _ rc] cell_ops(1,2) [OF _ rc] grid_map_cell [OF _ rc]
  have gx: "is_grid h w x" and gy: "is_grid h w y"
    by (simp_all add: x_def y_def g)
  have gr2: "is_grid h w r2" by (simp add: r2_def g gx gy)
  have gf: "is_grid h w f" by (simp add: f_def g gr2)
  have gux: "is_grid h w ux" by (simp add: ux_def g gx gy gr2 gf)
  have guy: "is_grid h w uy" by (simp add: uy_def g gx gy gr2 gf)
  have gd: "is_grid h w depth_f" by (simp add: depth_f_def g depth)
  have cx: "x ! row ! col = np_div (np_sub (Fin (of_int (int col))) (Fin (ppx d))) (Fin (fx d))"
    by (simp add: x_def grid_map_cell [OF _ rc] g meshgrid_nth rc)
  have cy: "y ! row ! col = np_div (np_sub (Fin (of_int (int row))) (Fin (ppy d))) (Fin (fy d))"
    by (simp add: y_def grid_map_cell [OF _ rc] g meshgrid_nth rc)
  have cr2: "r2 ! row ! col = np_add (np_mul (x ! row ! col) (x ! row ! col))
                                     (np_mul (y ! row ! col) (y ! row ! col))"
    by (simp add: r2_def cell g gx gy)
  have cf: "f ! row ! col =
      np_add (np_add (np_add (Fin 1) (np_mul (Fin (coeffs d ! 0)) (r2 ! row ! col)))
                     (np_mul (np_mul (Fin (coeffs d ! 1)) (r2 ! row ! col)) (r2 ! row ! col)))
             (np_mul (np_mul (np_mul (Fin (coeffs d ! 4)) (r2 ! row ! col)) (r2 ! row ! col))
                     (r2 ! row ! col))"
    by (simp add: f_def cell g gr2)
  have cux: "ux ! row ! col =
      np_add (np_add (np_mul (x ! row ! col) (f ! row ! col))
                     (np_mul (np_mul (Fin (2 * coeffs d ! 2)) (x ! row ! col)) (y ! row ! col)))
             (np_mul (Fin (coeffs d ! 3))
                     (np_add (r2 ! row ! col) (np_mul (np_mul (Fin 2) (x ! row ! col)) (x ! row ! col))))"
    by (simp add: ux_def cell g gx gy gr2 gf)
  have cuy: "uy ! row ! col =
      np_add (np_add (np_mul (y ! row ! col) (f ! row ! col))
                     (np_mul (np_mul (Fin (2 * coeffs d ! 3)) (x ! row ! col)) (y ! row ! col)))
             (np_mul (Fin (coeffs d ! 2))
                     (np_add (r2 ! row ! col) (np_mul (np_mul (Fin 2) (y ! row ! col)) (y ! row ! col))))"
    by (simp add: uy_def cell g gx gy gr2 gf)
  have cd: "depth_f ! row ! col = Fin (depth ! row ! col)"
    by (simp add: depth_f_def grid_map_cell [OF depth rc])
  have "?field ! row ! col = pix2point_at d row col (depth ! row ! col)"
    by (simp add: transpose_120_nth rc cell gd gux guy cd cux cuy cf cr2 cx cy
        pix2point_at_def Let_def)
  with run is_grid_transpose_120 show ?thesis by blast
qed

lemma is_fin_np_add: "is_fin (np_add a b) \<Longrightarrow> is_fin a \<and> is_fin b"
  by (cases a; cases b) simp_all

lemma is_fin_np_mul: "is_fin (np_mul a b) \<Longrightarrow> is_fin a \<and> is_fin b"
  by (cases a; cases b) (simp_all split: if_splits)

lemma not_fin_div_zero: "\<not> is_fin (np_div (np_sub (Fin a) (Fin b)) (Fin 0))"
  by (simp add: np_sub_def)

lemma np_fin_ops:
  "np_add (Fin a) (Fin b) = Fin (a + b)"
  "np_mul (Fin a) (Fin b) = Fin (a * b)"
  by simp_all

lemma pix2point_at_finite:
  assumes "fx d \<noteq> 0" "fy d \<noteq> 0"
  shows "pix2point_at d row col z =
           (let (X, Y, Z) = spec_point d row col z in [Fin X, Fin Y, Fin Z])"
proof -
  define x where "x = (real col - ppx d) / fx d"
  define y where "y = (real row - ppy d) / fy d"
  define c0 where "c0 = coeffs d ! 0"
  define c1 where "c1 = coeffs d ! 1"
  define c2 where "c2 = coeffs d ! 2"
  define c3 where "c3 = coeffs d ! 3"
  define c4 where "c4 = coeffs d ! 4"
  define r2 where "r2 = x * x + y * y"
  define f where "f = 1 + c0 * r2 + c1 * r2 * r2 + c4 * r2 * r2 * r2"
  have nx: "np_div (np_sub (Fin (of_int (int col))) (Fin (ppx d))) (Fin (fx d)) = Fin x"
    using assms(1) by (simp add: np_sub_def x_def)
  have ny: "np_div (np_sub (Fin (of_int (int row))) (Fin (ppy d))) (Fin (fy d)) = Fin y"
    using assms(2) by (simp add: np_sub_def y_def)
  have code: "pix2point_at d row col z =
      [Fin (z * (x * f + 2 * c2 * x * y + c3 * (r2 + 2 * x * x))),
       Fin (z * (y * f + 2 * c3 * x * y + c2 * (r2 + 2 * y * y))),
       Fin z]"
    unfolding pix2point_at_def Let_def nx ny np_fin_ops
    by (simp only: c0_def c1_def c2_def c3_def c4_def r2_def f_def)
  have spec: "spec_point d row col z =
      (z * (x * f + 2 * c2 * x * y + c3 * (r2 + 2 * x * x)),
       z * (y * f + 2 * c3 * x * y + c2 * (r2 + 2 * y * y)),
       z)"
    unfolding spec_point_def Let_def x_def [symmetric] y_def [symmetric]
      c0_def [symmetric] c1_def [symmetric] c2_def [symmetric] c3_def [symmetric]
      c4_def [symmetric] power2_eq_square power3_eq_cube r2_def [symmetric]
    by (simp add: f_def mult.assoc)
  show ?thesis
    unfolding code spec by simp
qed

text \<open>
  C1. For a depth image of \<open>h\<close> rows and \<open>w\<close> columns and intrinsics with \<open>fx\<close> and \<open>fy\<close>
  other than 0 (and the five distortion coefficients), \<open>pix2point\<close> returns a field of
  \<open>h\<close> rows and \<open>w\<close> columns, and its cell (row, col) is the point that the formulas of
  the specification give for that pixel and its depth: (depth x', depth y', depth).
\<close>

theorem pix2point_formula:
  assumes "is_grid h w depth"
    and "fx d \<noteq> 0" and "fy d \<noteq> 0"
    and "5 \<le> length (coeffs d)"
    and "row < h" and "col < w"
  shows "\<exists>field. pix2point depth d = Inr field \<and> is_grid h w field \<and>
           field ! row ! col =
             (let (X, Y, Z) = spec_point d row col (depth ! row ! col) in [Fin X, Fin Y, Fin Z])"
proof -
  from pix2point_cell [OF assms(1,4,5,6)]
  obtain field where "pix2point depth d = Inr field" "is_grid h w field"
    "field ! row ! col = pix2point_at d row col (depth ! row ! col)"
    by blast
  moreover note pix2point_at_finite [OF assms(2,3), of row col "depth ! row ! col"]
  ultimately show ?thesis by (intro exI [of _ field]) (simp only: simp_thms)
qed

theorem pix2point_formula_witness:
  "\<exists>field. pix2point [[5, 2]] \<lparr>coeffs = [1, 0, 0, 0, 0], fx = 1, fy = 1, ppx = 0, ppy = 0\<rparr> = Inr field \<and>
     is_grid 1 2 field \<and> field ! 0 ! 1 = [Fin 4, Fin 0, Fin 2]"
proof -
  let ?d = "\<lparr>coeffs = [1, 0, 0, 0, 0], fx = 1, fy = 1, ppx = 0, ppy = 0\<rparr>"
  have sp: "spec_point ?d 0 (Suc 0) 2 = (4, 0, 2)"
    by (simp add: spec_point_def)
  have "is_grid 1 2 [[5 :: real, 2]]" by (simp add: is_grid_def)
  from pix2point_formula [OF this, of ?d 0 1] show ?thesis
    by (simp add: sp)
qed

section \<open>Zero focal length\<close>

lemma pix2point_at_not_finite:
  assumes "fx d = 0 \<or> fy d = 0"
  shows "length (pix2point_at d row col z) = 3 \<and>
         \<not> is_fin (pix2point_at d row col z ! 0) \<and>
         \<not> is_fin (pix2point_at d row col z ! 1) \<and>
         pix2point_at d row col z ! 2 = Fin z"
proof -
  define x where "x = np_div (np_sub (Fin (of_int (int col))) (Fin (ppx d))) (Fin (fx d))"
  define y where "y = np_div (np_sub (Fin (of_int (int row))) (Fin (ppy d))) (Fin (fy d))"
  define r2 where "r2 = np_add (np_mul x x) (np_mul y y)"
  define f where "f = np_add (np_add (np_add (Fin 1) (np_mul (Fin (coeffs d ! 0)) r2))
                             (np_mul (np_mul (Fin (coeffs d ! 1)) r2) r2))
                     (np_mul (np_mul (np_mul (Fin (coeffs d ! 4)) r2) r2) r2)"
  define tx where "tx = np_add (np_mul (np_mul (Fin (2 * coeffs d ! 2)) x) y)
                      (np_mul (Fin (coeffs d ! 3)) (np_add r2 (np_mul (np_mul (Fin 2) x) x)))"
  define ux where "ux = np_add (np_add (np_mul x f) (np_mul (np_mul (Fin (2 * coeffs d ! 2)) x) y))
                      (np_mul (Fin (coeffs d ! 3)) (np_add r2 (np_mul (np_mul (Fin 2) x) x)))"
  define uy where "uy = np_add (np_add (np_mul y f) (np_mul (np_mul (Fin (2 * coeffs d ! 3)) x) y))
                      (np_mul (Fin (coeffs d ! 2)) (np_add r2 (np_mul (np_mul (Fin 2) y) y)))"
  have cell: "pix2point_at d row col z = [np_mul (Fin z) ux, np_mul (Fin z) uy, Fin z]"
    unfolding pix2point_at_def Let_def ux_def uy_def f_def r2_def x_def y_def ..
  from assms have "\<not> is_fin x \<or> \<not> is_fin y"
  proof
    assume "fx d = 0"
    then have "\<not> is_fin x" unfolding x_def using not_fin_div_zero by simp
    then show ?thesis ..
  next
    assume "fy d = 0"
    then have "\<not> is_fin y" unfolding y_def using not_fin_div_zero by simp
    then show ?thesis ..
  qed
  then have "\<not> is_fin (np_mul x x) \<or> \<not> is_fin (np_mul y y)"
    using is_fin_np_mul by blast
  then have nr2: "\<not> is_fin r2"
    unfolding r2_def using is_fin_np_add by blast
  then have "\<not> is_fin (np_mul (Fin (coeffs d ! 0)) r2)"
    using is_fin_np_mul by blast
  then have "\<not> is_fin (np_add (Fin 1) (np_mul (Fin (coeffs d ! 0)) r2))"
    using is_fin_np_add by blast
  then have "\<not> is_fin (np_add (np_add (Fin 1) (np_mul (Fin (coeffs d ! 0)) r2))
                             (np_mul (np_mul (Fin (coeffs d ! 1)) r2) r2))"
    using is_fin_np_add by blast
  then have nf: "\<not> is_fin f"
    unfolding f_def using is_fin_np_add by blast
  have "\<not> is_fin (np_mul x f)" using nf is_fin_np_mul by blast
  then have "\<not> is_fin (np_add (np_mul x f) (np_mul (np_mul (Fin (2 * coeffs d ! 2)) x) y))"
    using is_fin_np_add by blast
  then have "\<not> is_fin ux" unfolding ux_def using is_fin_np_add by blast
  then have nux: "\<not> is_fin (np_mul (Fin z) ux)" using is_fin_np_mul by blast
  have "\<not> is_fin (np_mul y f)" using nf is_fin_np_mul by blast
  then have "\<not> is_fin (np_add (np_mul y f) (np_mul (np_mul (Fin (2 * coeffs d ! 3)) x) y))"
    using is_fin_np_add by blast
  then have "\<not> is_fin uy" unfolding uy_def using is_fin_np_add by blast
  then have nuy: "\<not> is_fin (np_mul (Fin z) uy)" using is_fin_np_mul by blast
  show ?thesis unfolding cell using nux nuy by (simp add: numeral_2_eq_2)
qed

text \<open>
  C4, as the code has it. With \<open>fx = 0\<close> or \<open>fy = 0\<close> nothing is raised: \<open>pix2point\<close>
  returns a field of the shape of the depth image, and in every cell the x and the y
  coordinate are infinite or NaN; the z coordinate is the depth.
\<close>

theorem pix2point_zero_focal_length:
  assumes "is_grid h w depth"
    and "fx d = 0 \<or> fy d = 0"
    and "5 \<le> length (coeffs d)"
    and "row < h" and "col < w"
  shows "\<exists>field. pix2point depth d = Inr field \<and> is_grid h w field \<and>
           length (field ! row ! col) = 3 \<and>
           \<not> is_fin (field ! row ! col ! 0) \<and>
           \<not> is_fin (field ! row ! col ! 1) \<and>
           field ! row ! col ! 2 = Fin (depth ! row ! col)"
proof -
  from pix2point_cell [OF assms(1,3,4,5)]
  obtain field where "pix2point depth d = Inr field" "is_grid h w field"
    "field ! row ! col = pix2point_at d row col (depth ! row ! col)"
    by blast
  moreover note pix2point_at_not_finite [OF assms(2), of row col "depth ! row ! col"]
  ultimately show ?thesis by (intro exI [of _ field]) (simp only: simp_thms)
qed

theorem pix2point_zero_focal_length_witness:
  "\<exists>field. pix2point [[5, 2]] \<lparr>coeffs = [0, 0, 0, 0, 0], fx = 0, fy = 2, ppx = 1, ppy = 1\<rparr> = Inr field \<and>
     is_grid 1 2 field \<and> length (field ! 0 ! 1) = 3 \<and>
     \<not> is_fin (field ! 0 ! 1 ! 0) \<and> \<not> is_fin (field ! 0 ! 1 ! 1) \<and> field ! 0 ! 1 ! 2 = Fin 2"
proof -
  have "is_grid 1 2 [[5 :: real, 2]]" by (simp add: is_grid_def)
  from pix2point_zero_focal_length
    [OF this, of "\<lparr>coeffs = [0, 0, 0, 0, 0], fx = 0, fy = 2, ppx = 1, ppy = 1\<rparr>" 0 1]
  show ?thesis by simp
qed

lemma pix2point_at_zero_fx:
  "pix2point_at \<lparr>coeffs = [0, 0, 0, 0, 0], fx = 0, fy = 2, ppx = 1, ppy = 1\<rparr> 0 0 5 = [NaN, NaN, Fin 5]"
  by (simp add: pix2point_at_def np_sub_def)

text \<open>
  The call with \<open>fx = 0\<close> on a depth image of one pixel returns NaN coordinates.
\<close>

theorem pix2point_zero_fx_counterexample:
  "pix2point [[5]] \<lparr>coeffs = [0, 0, 0, 0, 0], fx = 0, fy = 2, ppx = 1, ppy = 1\<rparr>
     = Inr [[[NaN, NaN, Fin 5]]]"
proof -
  let ?d = "\<lparr>coeffs = [0, 0, 0, 0, 0], fx = 0, fy = 2, ppx = 1, ppy = 1\<rparr>"
  have "is_grid 1 1 [[5 :: real]]" by (simp add: is_grid_def)
  moreover have "5 \<le> length (coeffs ?d)" by simp
  ultimately obtain field where run: "pix2point [[5]] ?d = Inr field"
    and grid: "is_grid 1 1 field"
    and cell: "field ! 0 ! 0 = pix2point_at ?d 0 0 ([[5]] ! 0 ! 0)"
    using pix2point_cell [of 1 1 "[[5]]" ?d 0 0] by auto
  from cell have "field ! 0 ! 0 = [NaN, NaN, Fin 5]"
    by (simp add: pix2point_at_zero_fx)
  with grid_1x1 [OF grid] have "field = [[[NaN, NaN, Fin 5]]]" by simp
  with run show ?thesis by simp
qed

section \<open>Colours\<close>

lemma uint8_minus_255:
  fixes rgb :: "8 word"
  shows "unat (rgb - 255) = (unat rgb + 1) mod 256"
proof -
  have "rgb - 255 = rgb + 1" by simp
  then have "unat (rgb - 255) = unat (rgb + 1)" by (simp only:)
  also have "\<dots> = (unat rgb + unat (1 :: 8 word)) mod 2 ^ LENGTH(8)"
    by (rule unat_word_ariths(1))
  finally show ?thesis by simp
qed

text \<open>
  C9, as the code has it. The image is a uint8 array, so \<open>png[food_mask] - 255\<close> wraps
  around: the colour assembled for a channel value \<open>rgb\<close> is ((rgb + 1) mod 256) / 255. It
  lies between 0 and 1.
\<close>

theorem point_cloud_colours:
  "snd (point_cloud ranked_food_mask png real_coords i) =
     map (map (\<lambda>rgb. real ((unat rgb + 1) mod 256) / 255))
         (bool_index png (grid_map (\<lambda>v. v = i) ranked_food_mask)) \<and>
   (\<forall>colour \<in> set (snd (point_cloud ranked_food_mask png real_coords i)).
      \<forall>v \<in> set colour. 0 \<le> v \<and> v \<le> 1)"
proof -
  have bound: "(unat rgb + 1) mod 256 \<le> 255" for rgb :: "8 word"
    by simp
  have range: "0 \<le> real ((unat rgb + 1) mod 256) / 255 \<and> real ((unat rgb + 1) mod 256) / 255 \<le> 1"
    for rgb :: "8 word"
    using bound [of rgb] by simp
  have eq: "snd (point_cloud ranked_food_mask png real_coords i) =
     map (map (\<lambda>rgb. real ((unat rgb + 1) mod 256) / 255))
         (bool_index png (grid_map (\<lambda>v. v = i) ranked_food_mask))"
    by (simp add: point_cloud_def food_rgb_of_def uint8_minus_255 Let_def)
  show ?thesis
    unfolding eq using range by auto
qed

theorem point_cloud_colours_witness:
  "snd (point_cloud [[1, 0]] [[[10, 254, 255], [7, 7, 7]]]
          [[[Fin 1, Fin 2, Fin 3], [Fin 4, Fin 5, Fin 6]]] 1) = [[11 / 255, 1, 0]] \<and>
   (0 :: real) \<le> 11 / 255 \<and> (11 / 255 :: real) \<le> 1"
  using point_cloud_colours
    [of "[[1, 0]]" "[[[10, 254, 255], [7, 7, 7]]]" "[[[Fin 1, Fin 2, Fin 3], [Fin 4, Fin 5, Fin 6]]]" 1]
  by (simp add: bool_index_def grid_map_def)

text \<open>
  For the channel value 0 the colour is 1/255: it is not (0 - 255)/255 and not in [-1, 0].
\<close>

theorem point_cloud_colours_counterexample:
  "point_cloud [[0]] [[[0, 128, 255]]] [[[Fin 3, Fin 4, Fin 5]]] 0 =
     ([[Fin 3, Fin 4, Fin 5]], [[1 / 255, 129 / 255, 0]]) \<and>
   (1 / 255 :: real) \<noteq> (0 - 255) / 255 \<and> \<not> (1 / 255 :: real) \<le> 0"
  by (simp add: point_cloud_def food_rgb_of_def bool_index_def grid_map_def)


end
